theory Spec2Isabelle
  imports Main "HOL-Library.AList"
begin

section \<open>Values shared by every component\<close>

text \<open>
  Every \<open>raise\<close> and failed \<open>assert\<close> of \<open>vectorization.py\<close> is a value of
  \<open>error\<close>. \<open>Never_returns\<close> is not an exception: it stands for a call that blocks
  for ever (\<open>Queue.get()\<close> on a queue that is never filled again).
\<close>

datatype error =
    AssertionError string
  | NotImplementedError
  | ValueError
  | TypeError
  | AttributeError
  | ZeroDivisionError
  | IndexError
  | OverflowError
  | Never_returns

text \<open>
  A Python \<open>dict\<close> keeps insertion order, and \<open>VecEnv.recv\<close> depends on it
  (\<open>list(o.keys())\<close>, \<open>list(o.values())\<close>): a dict is an association list in
  insertion order. \<open>py_dict\<close> is \<open>dict(pairs)\<close>: a key met again keeps its place and takes
  the later value, which is what \<open>AList.update\<close> does.
\<close>

type_synonym ('k, 'v) dict = "('k \<times> 'v) list"

definition py_dict :: "('k \<times> 'v) list \<Rightarrow> ('k, 'v) dict" where
  "py_dict pairs = fold (\<lambda>(k, v) d. AList.update k v d) pairs []"

definition keys :: "('k, 'v) dict \<Rightarrow> 'k list" where
  "keys d = map fst d"

definition vals :: "('k, 'v) dict \<Rightarrow> 'v list" where
  "vals d = map snd d"

text \<open>
  An observation of one agent is a flat numeric array \<open>'x list\<close>. One environment
  result is the tuple \<open>(obs, rewards, dones, infos)\<close> of dicts keyed by agent. Rewards are
  numbers the orchestration never computes with (\<open>int\<close>); info values are opaque.
\<close>

type_synonym ('k, 'x) result =
  "('k, 'x list) dict \<times> ('k, int) dict \<times> ('k, bool) dict \<times> ('k, string) dict"

text \<open>
  The environment is an external collaborator. Its three capabilities used by the code
  are the fields of \<open>env_ops\<close> over an opaque instance state \<open>'s\<close>:
  \<open>env.reset(seed=seed)\<close> (\<open>env.reset()\<close> is the call with seed \<open>None\<close>),
  \<open>env.step(actions)\<close> and the attribute \<open>env.done\<close>.
\<close>

record ('s, 'k, 'x, 'a) env_ops =
  env_reset :: "int option \<Rightarrow> 's \<Rightarrow> ('k, 'x list) dict \<times> 's"
  env_step :: "('k, 'a) dict \<Rightarrow> 's \<Rightarrow> ('k, 'x) result \<times> 's"
  env_done :: "'s \<Rightarrow> bool"

text \<open>
  numpy is an external library. Two of its functions convert the values they are given,
  and what they convert to depends on all the values together: \<open>np.array(list)\<close> settles
  on one dtype for the list and converts every entry to it, and \<open>np.stack(arrays)\<close>
  promotes all arrays to one dtype. Both can raise while doing so. These conversions are
  parameters: \<open>array_raises xs\<close> is the error \<open>np.array(xs)\<close> raises, if it raises, and
  \<open>array_cast xs\<close> the conversion it applies to each entry of \<open>xs\<close>; \<open>stack_raises\<close> and
  \<open>stack_cast\<close> are the same for the promotion in \<open>np.stack\<close>.
\<close>

record ('a, 'x) numpy =
  array_raises :: "'a list \<Rightarrow> error option"
  array_cast :: "'a list \<Rightarrow> 'a \<Rightarrow> 'a"
  stack_raises :: "'x list list \<Rightarrow> error option"
  stack_cast :: "'x list list \<Rightarrow> 'x list \<Rightarrow> 'x list"

definition np_array :: "('a, 'x) numpy \<Rightarrow> 'a list \<Rightarrow> error + 'a list" where
  "np_array N xs =
     (case array_raises N xs of
        Some e \<Rightarrow> Inl e
      | None \<Rightarrow> Inr (map (array_cast N xs) xs))"

section \<open>MultiEnv: several environments run in serial\<close>

text \<open>\<open>self.envs = [env_creator() for _ in range(n)]\<close>\<close>

definition MultiEnv_init :: "(unit \<Rightarrow> 's) \<Rightarrow> int \<Rightarrow> 's list" where
  "MultiEnv_init env_creator n = map (\<lambda>_. env_creator ()) [0..<nat n]"

text \<open>\<open>seed += 1\<close> when the seed is not \<open>None\<close>.\<close>

definition seed_add :: "int option \<Rightarrow> int \<Rightarrow> int option" where
  "seed_add seed d = (case seed of None \<Rightarrow> None | Some s \<Rightarrow> Some (s + d))"

fun MultiEnv_reset_all ::
  "('s, 'k, 'x, 'a) env_ops \<Rightarrow> int option \<Rightarrow> 's list \<Rightarrow> ('k, 'x) result list \<times> 's list" where
  "MultiEnv_reset_all E seed [] = ([], [])"
| "MultiEnv_reset_all E seed (e # es) =
     (let (obs, e') = env_reset E seed e;
          (handles, es') = MultiEnv_reset_all E (seed_add seed 1) es
      in ((obs, [], [], []) # handles, e' # es'))"

text \<open>
  The body of the loop of \<open>MultiEnv.step\<close>: an environment whose \<open>done\<close> flag is set is
  reset and the submitted actions are not used.
\<close>

definition step_env ::
  "('s, 'k, 'x, 'a) env_ops \<Rightarrow> 's \<Rightarrow> ('k, 'a) dict \<Rightarrow> ('k, 'x) result \<times> 's" where
  "step_env E env actions =
     (if env_done E env then
        (let (obs, env') = env_reset E None env;
             rewards = py_dict (map (\<lambda>k. (k, 0)) (keys obs));
             dones = py_dict (map (\<lambda>k. (k, False)) (keys obs));
             infos = []
         in ((obs, rewards, dones, infos), env'))
      else env_step E actions env)"

fun step_loop ::
  "('s, 'k, 'x, 'a) env_ops \<Rightarrow> ('s \<times> ('k, 'a) dict) list \<Rightarrow> ('k, 'x) result list \<times> 's list" where
  "step_loop E [] = ([], [])"
| "step_loop E ((env, actions) # rest) =
     (let (r, env') = step_env E env actions;
          (returns, envs') = step_loop E rest
      in (r # returns, env' # envs'))"

definition MultiEnv_step ::
  "('s, 'k, 'x, 'a) env_ops \<Rightarrow> ('k, 'a) dict list \<Rightarrow> 's list
     \<Rightarrow> error + (('k, 'x) result list \<times> 's list)" where
  "MultiEnv_step E actions_lists envs =
     (if length envs \<noteq> length actions_lists then Inl (AssertionError [])
      else Inr (step_loop E (zip envs actions_lists)))"

section \<open>The backend interface\<close>

text \<open>
  What a backend's \<open>recv()\<close> hands to the orchestrator is dynamically typed: the list of
  result tuples of a \<open>MultiEnv\<close> call, the header \<open>(len(results), dones)\<close> the shared-memory
  worker puts on its response queue, or the pair \<open>(obs_np[:n], dones)\<close> that
  \<open>SharedMemoryMultiprocessing.recv\<close> returns.
\<close>

datatype ('k, 'x) pyval =
    Result_list "('k, 'x) result list"
  | Header nat "('k, bool) dict list"
  | Obs_view "'x list list" "('k, bool) dict list"

text \<open>
  \<open>VecEnv\<close> is given a backend class and only calls its constructor and four methods. A
  backend class is the record of these, over the state \<open>'b\<close> of one backend object; a
  method returns its value or error together with the object as the call leaves it.
\<close>

record ('c, 'b, 'k, 'x, 'a) backend_cls =
  cls_init :: "'c \<Rightarrow> int \<Rightarrow> error + 'b"
  cls_async_reset_all :: "int option \<Rightarrow> 'b \<Rightarrow> (error + unit) \<times> 'b"
  cls_send :: "('k, 'a) dict list \<Rightarrow> 'b \<Rightarrow> (error + unit) \<times> 'b"
  cls_recv :: "'b \<Rightarrow> (error + ('k, 'x) pyval) \<times> 'b"
  cls_close :: "'b \<Rightarrow> (error + unit) \<times> 'b"

subsection \<open>Serial\<close>

text \<open>
  \<open>class Serial(MultiEnv, Backend)\<close>: the environments of \<open>MultiEnv\<close> and the single slot
  \<open>async_handles\<close>. Neither \<open>Serial\<close> nor \<open>MultiEnv\<close> defines \<open>close\<close>, so the method
  resolution order reaches \<open>Backend.close\<close>, which raises \<open>NotImplementedError\<close>.
\<close>

record ('s, 'k, 'x) Serial_state =
  envs :: "'s list"
  async_handles :: "('k, 'x) result list option"

definition Serial_init :: "(unit \<Rightarrow> 's) \<Rightarrow> int \<Rightarrow> error + ('s, 'k, 'x) Serial_state" where
  "Serial_init env_creator n = Inr \<lparr>envs = MultiEnv_init env_creator n, async_handles = None\<rparr>"

definition Serial_async_reset_all ::
  "('s, 'k, 'x, 'a) env_ops \<Rightarrow> int option \<Rightarrow> ('s, 'k, 'x) Serial_state
     \<Rightarrow> (error + unit) \<times> ('s, 'k, 'x) Serial_state" where
  "Serial_async_reset_all E seed b =
     (if async_handles b \<noteq> None then (Inl (AssertionError ''reset called after send''), b)
      else (let (handles, es) = MultiEnv_reset_all E seed (envs b)
            in (Inr (), b\<lparr>envs := es, async_handles := Some handles\<rparr>)))"

definition Serial_send ::
  "('s, 'k, 'x, 'a) env_ops \<Rightarrow> ('k, 'a) dict list \<Rightarrow> ('s, 'k, 'x) Serial_state
     \<Rightarrow> (error + unit) \<times> ('s, 'k, 'x) Serial_state" where
  "Serial_send E actions_lists b =
     (if async_handles b \<noteq> None then (Inl (AssertionError ''send called before recv''), b)
      else (case MultiEnv_step E actions_lists (envs b) of
              Inl e \<Rightarrow> (Inl e, b)
            | Inr (returns, es) \<Rightarrow> (Inr (), b\<lparr>envs := es, async_handles := Some returns\<rparr>)))"

definition Serial_recv ::
  "('s, 'k, 'x) Serial_state \<Rightarrow> (error + ('k, 'x) pyval) \<times> ('s, 'k, 'x) Serial_state" where
  "Serial_recv b =
     (case async_handles b of
        None \<Rightarrow> (Inl (AssertionError ''recv called before reset or send''), b)
      | Some handles \<Rightarrow> (Inr (Result_list handles), b\<lparr>async_handles := None\<rparr>))"

definition Backend_close :: "'b \<Rightarrow> (error + unit) \<times> 'b" where
  "Backend_close b = (Inl NotImplementedError, b)"

definition Serial ::
  "('s, 'k, 'x, 'a) env_ops \<Rightarrow> (unit \<Rightarrow> 's, ('s, 'k, 'x) Serial_state, 'k, 'x, 'a) backend_cls" where
  "Serial E =
     \<lparr>cls_init = Serial_init,
      cls_async_reset_all = Serial_async_reset_all E,
      cls_send = Serial_send E,
      cls_recv = Serial_recv,
      cls_close = Backend_close\<rparr>"

subsection \<open>Multiprocessing\<close>

text \<open>
  A request is the tuple \<open>(name, args, kwargs)\<close> a backend method puts on its request
  queue. The methods embedded here put four of them:
  \<open>("reset_all", [seed], {})\<close>, \<open>("step", [actions_lists], {})\<close>, \<open>("close", [], {})\<close>,
  and \<open>("terminate", [], {})\<close>, the name the shared-memory worker tests for first.
\<close>

datatype ('k, 'a) request =
    Request_reset_all "int option"
  | Request_step "('k, 'a) dict list"
  | Request_close
  | Request_terminate

text \<open>
  The worker process owns \<open>self.envs\<close>. It runs until an exception ends it
  (\<open>Crashed\<close>) or its loop breaks (\<open>Exited\<close>).
\<close>

datatype 's process = Running "'s list" | Crashed error | Exited

record ('s, 'k, 'x, 'a) Multiprocessing_state =
  request_queue :: "('k, 'a) request list"
  response_queue :: "('k, 'x) pyval list"
  process :: "'s process"

definition Multiprocessing_init ::
  "(unit \<Rightarrow> 's) \<Rightarrow> int \<Rightarrow> error + ('s, 'k, 'x, 'a) Multiprocessing_state" where
  "Multiprocessing_init env_creator n =
     Inr \<lparr>request_queue = [], response_queue = [],
          process = Running (MultiEnv_init env_creator n)\<rparr>"

text \<open>
  \<open>func = getattr(self.envs, request); response = func(*args, **kwargs)\<close>.
  \<open>MultiEnv\<close> has the methods \<open>reset_all\<close> and \<open>step\<close>; it has no attribute \<open>close\<close> or
  \<open>terminate\<close>, so \<open>getattr\<close> raises \<open>AttributeError\<close> for these names.
\<close>

definition MultiEnv_call ::
  "('s, 'k, 'x, 'a) env_ops \<Rightarrow> ('k, 'a) request \<Rightarrow> 's list \<Rightarrow> error + (('k, 'x) pyval \<times> 's list)" where
  "MultiEnv_call E req es =
     (case req of
        Request_reset_all seed \<Rightarrow>
          (let (handles, es') = MultiEnv_reset_all E seed es in Inr (Result_list handles, es'))
      | Request_step actions_lists \<Rightarrow>
          (case MultiEnv_step E actions_lists es of
             Inl e \<Rightarrow> Inl e
           | Inr (returns, es') \<Rightarrow> Inr (Result_list returns, es'))
      | Request_close \<Rightarrow> Inl AttributeError
      | Request_terminate \<Rightarrow> Inl AttributeError)"

text \<open>
  The loop \<open>while True\<close> of \<open>_worker_process\<close>, run over the requests that are waiting
  on the queue: it returns the requests it never took, the response queue, and the
  process, which is still \<open>Running\<close> (blocked in \<open>request_queue.get()\<close>) when it has
  taken them all.
\<close>

fun worker_process ::
  "('s, 'k, 'x, 'a) env_ops \<Rightarrow> ('k, 'a) request list \<Rightarrow> 's list \<Rightarrow> ('k, 'x) pyval list
     \<Rightarrow> ('k, 'a) request list \<times> ('k, 'x) pyval list \<times> 's process" where
  "worker_process E [] es responses = ([], responses, Running es)"
| "worker_process E (req # waiting) es responses =
     (case MultiEnv_call E req es of
        Inl e \<Rightarrow> (waiting, responses, Crashed e)
      | Inr (response, es') \<Rightarrow> worker_process E waiting es' (responses @ [response]))"

text \<open>
  The worker runs beside the caller. There is one producer and one consumer on each
  queue and the worker is deterministic, so what \<open>response_queue.get()\<close> returns does
  not depend on the schedule: \<open>run_worker\<close> lets the worker take every waiting request,
  and \<open>get\<close> then takes the first response, or never returns when there is none.
\<close>

definition run_worker ::
  "('s, 'k, 'x, 'a) env_ops \<Rightarrow> ('s, 'k, 'x, 'a, 'z) Multiprocessing_state_scheme
     \<Rightarrow> ('s, 'k, 'x, 'a, 'z) Multiprocessing_state_scheme" where
  "run_worker E b =
     (case process b of
        Running es \<Rightarrow>
          (let (waiting, responses, p) = worker_process E (request_queue b) es (response_queue b)
           in b\<lparr>request_queue := waiting, response_queue := responses, process := p\<rparr>)
      | Crashed e \<Rightarrow> b
      | Exited \<Rightarrow> b)"

definition queue_put ::
  "('k, 'a) request \<Rightarrow> ('s, 'k, 'x, 'a, 'z) Multiprocessing_state_scheme
     \<Rightarrow> (error + unit) \<times> ('s, 'k, 'x, 'a, 'z) Multiprocessing_state_scheme" where
  "queue_put req b = (Inr (), b\<lparr>request_queue := request_queue b @ [req]\<rparr>)"

definition Multiprocessing_close ::
  "('s, 'k, 'x, 'a, 'z) Multiprocessing_state_scheme
     \<Rightarrow> (error + unit) \<times> ('s, 'k, 'x, 'a, 'z) Multiprocessing_state_scheme" where
  "Multiprocessing_close b = queue_put Request_close b"

definition Multiprocessing_async_reset_all ::
  "int option \<Rightarrow> ('s, 'k, 'x, 'a, 'z) Multiprocessing_state_scheme
     \<Rightarrow> (error + unit) \<times> ('s, 'k, 'x, 'a, 'z) Multiprocessing_state_scheme" where
  "Multiprocessing_async_reset_all seed b = queue_put (Request_reset_all seed) b"

definition Multiprocessing_send ::
  "('k, 'a) dict list \<Rightarrow> ('s, 'k, 'x, 'a, 'z) Multiprocessing_state_scheme
     \<Rightarrow> (error + unit) \<times> ('s, 'k, 'x, 'a, 'z) Multiprocessing_state_scheme" where
  "Multiprocessing_send actions_lists b = queue_put (Request_step actions_lists) b"

definition Multiprocessing_recv ::
  "('s, 'k, 'x, 'a) env_ops \<Rightarrow> ('s, 'k, 'x, 'a) Multiprocessing_state
     \<Rightarrow> (error + ('k, 'x) pyval) \<times> ('s, 'k, 'x, 'a) Multiprocessing_state" where
  "Multiprocessing_recv E b =
     (let b' = run_worker E b
      in case response_queue b' of
           [] \<Rightarrow> (Inl Never_returns, b')
         | response # rest \<Rightarrow> (Inr response, b'\<lparr>response_queue := rest\<rparr>))"

definition Multiprocessing ::
  "('s, 'k, 'x, 'a) env_ops
     \<Rightarrow> (unit \<Rightarrow> 's, ('s, 'k, 'x, 'a) Multiprocessing_state, 'k, 'x, 'a) backend_cls" where
  "Multiprocessing E =
     \<lparr>cls_init = Multiprocessing_init,
      cls_async_reset_all = Multiprocessing_async_reset_all,
      cls_send = Multiprocessing_send,
      cls_recv = Multiprocessing_recv E,
      cls_close = Multiprocessing_close\<rparr>"

subsection \<open>SharedMemoryMultiprocessing\<close>

text \<open>
  The subclass adds the shared buffer: \<open>obs_np\<close> is the list of its rows, and
  \<open>obs_shm_closed\<close> records whether \<open>self.obs_shm.close()\<close> has run. It inherits
  \<open>close\<close>, \<open>send\<close> and \<open>async_reset_all\<close> from \<open>Multiprocessing\<close> and overrides the
  worker loop and \<open>recv\<close>.

  Two things are numpy's and the operating system's, not this repository's, and are
  parameters: \<open>assign\<close> stands for what the item assignment \<open>self.obs_np[i] = obs\<close>
  does with the assigned object in the worker process, the lookup of \<open>self.obs_np\<close>
  there and the conversion to a row of 32-bit floats (either can fail), and \<open>fresh\<close> is
  the content of a cell of newly created shared memory.
\<close>

record ('s, 'k, 'x, 'a) SharedMemory_state = "('s, 'k, 'x, 'a) Multiprocessing_state" +
  obs_shape :: "nat list"
  obs_np :: "'x list list"
  obs_shm_closed :: bool

text \<open>
  \<open>__init__(self, env_creator, n, obs_shape)\<close>. Creating shared memory of size zero
  raises \<open>ValueError\<close>.
\<close>

definition SharedMemory_init ::
  "'x \<Rightarrow> (unit \<Rightarrow> 's) \<Rightarrow> int \<Rightarrow> nat list \<Rightarrow> error + ('s, 'k, 'x, 'a) SharedMemory_state" where
  "SharedMemory_init fresh env_creator n shape =
     (if n * int (prod_list shape) \<le> 0 then Inl ValueError
      else Inr \<lparr>request_queue = [], response_queue = [],
                process = Running (MultiEnv_init env_creator n),
                obs_shape = nat n # shape,
                obs_np = replicate (nat n) (replicate (prod_list shape) fresh),
                obs_shm_closed = False\<rparr>)"

text \<open>\<open>self.envs.close()\<close>: \<open>MultiEnv\<close> has no attribute \<open>close\<close>.\<close>

definition MultiEnv_close :: "'s list \<Rightarrow> error + 's list" where
  "MultiEnv_close es = Inl AttributeError"

text \<open>
  \<open>for i, (obs, _, _, _) in enumerate(results): self.obs_np[i] = obs\<close>. The rows
  written before a failure stay written.
\<close>

fun write_obs ::
  "(('k, 'x list) dict \<Rightarrow> error + 'x list) \<Rightarrow> nat \<Rightarrow> ('k, 'x) result list \<Rightarrow> 'x list list
     \<Rightarrow> error option \<times> 'x list list" where
  "write_obs assign i [] buf = (None, buf)"
| "write_obs assign i ((ob, r, d, info) # rest) buf =
     (if \<not> i < length buf then (Some IndexError, buf)
      else (case assign ob of
              Inl e \<Rightarrow> (Some e, buf)
            | Inr row \<Rightarrow> write_obs assign (Suc i) rest (buf[i := row])))"

text \<open>
  The worker loop of the subclass over the waiting requests; it also returns the buffer
  and whether the shared memory has been closed.
\<close>

fun shm_worker_process ::
  "('s, 'k, 'x, 'a) env_ops \<Rightarrow> (('k, 'x list) dict \<Rightarrow> error + 'x list)
     \<Rightarrow> ('k, 'a) request list \<Rightarrow> 's list \<Rightarrow> ('k, 'x) pyval list \<Rightarrow> 'x list list \<Rightarrow> bool
     \<Rightarrow> ('k, 'a) request list \<times> ('k, 'x) pyval list \<times> 's process \<times> 'x list list \<times> bool" where
  "shm_worker_process E assign [] es responses buf closed =
     ([], responses, Running es, buf, closed)"
| "shm_worker_process E assign (Request_terminate # waiting) es responses buf closed =
     (case MultiEnv_close es of
        Inl e \<Rightarrow> (waiting, responses, Crashed e, buf, closed)
      | Inr es' \<Rightarrow> (waiting, responses, Exited, buf, True))"
| "shm_worker_process E assign (Request_step actions_lists # waiting) es responses buf closed =
     (case MultiEnv_step E actions_lists es of
        Inl e \<Rightarrow> (waiting, responses, Crashed e, buf, closed)
      | Inr (results, es') \<Rightarrow>
          (case write_obs assign 0 results buf of
             (Some e, buf') \<Rightarrow> (waiting, responses, Crashed e, buf', closed)
           | (None, buf') \<Rightarrow>
               shm_worker_process E assign waiting es'
                 (responses @ [Header (length results) (map (\<lambda>(ob, r, d, info). d) results)])
                 buf' closed))"
| "shm_worker_process E assign (req # waiting) es responses buf closed =
     (case MultiEnv_call E req es of
        Inl e \<Rightarrow> (waiting, responses, Crashed e, buf, closed)
      | Inr (response, es') \<Rightarrow>
          shm_worker_process E assign waiting es' (responses @ [response]) buf closed)"

definition shm_run_worker ::
  "('s, 'k, 'x, 'a) env_ops \<Rightarrow> (('k, 'x list) dict \<Rightarrow> error + 'x list)
     \<Rightarrow> ('s, 'k, 'x, 'a) SharedMemory_state \<Rightarrow> ('s, 'k, 'x, 'a) SharedMemory_state" where
  "shm_run_worker E assign b =
     (case process b of
        Running es \<Rightarrow>
          (case shm_worker_process E assign (request_queue b) es (response_queue b) (obs_np b)
                  (obs_shm_closed b) of
             (waiting, responses, p, buf, closed) \<Rightarrow>
               b\<lparr>request_queue := waiting, response_queue := responses, process := p,
                 obs_np := buf, obs_shm_closed := closed\<rparr>)
      | Crashed e \<Rightarrow> b
      | Exited \<Rightarrow> b)"

text \<open>
  \<open>num_new_obs, dones = self.response_queue.get(); return self.obs_np[:num_new_obs], dones\<close>.
  Only a header unpacks as meant. A list of result tuples unpacks into two names only
  when it has two elements (\<open>ValueError\<close> otherwise), and then \<open>num_new_obs\<close> is a tuple,
  which is no slice index (\<open>TypeError\<close>); neither is the array of a pair.
\<close>

definition SharedMemory_recv ::
  "('s, 'k, 'x, 'a) env_ops \<Rightarrow> (('k, 'x list) dict \<Rightarrow> error + 'x list)
     \<Rightarrow> ('s, 'k, 'x, 'a) SharedMemory_state
     \<Rightarrow> (error + ('k, 'x) pyval) \<times> ('s, 'k, 'x, 'a) SharedMemory_state" where
  "SharedMemory_recv E assign b =
     (let b' = shm_run_worker E assign b
      in case response_queue b' of
           [] \<Rightarrow> (Inl Never_returns, b')
         | response # rest \<Rightarrow>
             (let b'' = b'\<lparr>response_queue := rest\<rparr>
              in case response of
                   Header num_new_obs dones \<Rightarrow>
                     (Inr (Obs_view (take num_new_obs (obs_np b'')) dones), b'')
                 | Result_list rs \<Rightarrow>
                     (if length rs \<noteq> 2 then (Inl ValueError, b'') else (Inl TypeError, b''))
                 | Obs_view rows dones \<Rightarrow> (Inl TypeError, b'')))"

text \<open>
  As a backend class for \<open>VecEnv\<close>: \<open>VecEnv\<close> calls \<open>backend_cls(env_creator, n)\<close> with two
  arguments, and the constructor of this class has a third required one, so that call
  raises \<open>TypeError\<close>.
\<close>

definition SharedMemoryMultiprocessing ::
  "('s, 'k, 'x, 'a) env_ops \<Rightarrow> (('k, 'x list) dict \<Rightarrow> error + 'x list)
     \<Rightarrow> (unit \<Rightarrow> 's, ('s, 'k, 'x, 'a) SharedMemory_state, 'k, 'x, 'a) backend_cls" where
  "SharedMemoryMultiprocessing E assign =
     \<lparr>cls_init = (\<lambda>env_creator n. Inl TypeError),
      cls_async_reset_all = Multiprocessing_async_reset_all,
      cls_send = Multiprocessing_send,
      cls_recv = SharedMemory_recv E assign,
      cls_close = Multiprocessing_close\<rparr>"

section \<open>VecEnv: the orchestrator\<close>

text \<open>The three values of \<open>self.state\<close>: \<open>RESET = 0\<close>, \<open>SEND = 1\<close>, \<open>RECV = 2\<close>.\<close>

datatype fsm = RESET | SEND | RECV

text \<open>
  \<open>binding\<close> carries the environment factory and \<open>max_agents\<close>. The attribute
  \<open>agent_keys\<close> does not exist before the first \<open>recv()\<close>: it is \<open>None\<close> until then.
\<close>

record 'c binding =
  env_creator :: 'c
  max_agents :: int

record ('c, 'b, 'k) VecEnv =
  binding :: "'c binding"
  num_workers :: int
  envs_per_worker :: int
  state :: fsm
  backends :: "'b list"
  agent_keys :: "'k list list list option"

subsection \<open>Construction\<close>

text \<open>
  The argument \<open>envs_per_worker\<close> is dynamically typed. \<open>Py_int n\<close> is a value of type
  \<open>int\<close>; \<open>Py_other c\<close> is a value of any other type (\<open>bool\<close>, \<open>float\<close>, \<open>str\<close>,
  \<open>None\<close>, a numpy integer, ...), of which the constructor only observes what the test
  \<open>envs_per_worker > 0\<close> does: it raises (\<open>Inl\<close>), or it is true or false.
\<close>

datatype pyobj = Py_int int | Py_other "error + bool"

text \<open>\<open>[backend_cls(self.binding.env_creator, envs_per_worker) for _ in range(self.num_workers)]\<close>\<close>

fun init_backends ::
  "('c, 'b, 'k, 'x, 'a) backend_cls \<Rightarrow> 'c \<Rightarrow> int \<Rightarrow> nat \<Rightarrow> error + 'b list" where
  "init_backends B c n 0 = Inr []"
| "init_backends B c n (Suc m) =
     (case cls_init B c n of
        Inl e \<Rightarrow> Inl e
      | Inr b \<Rightarrow> (case init_backends B c n m of Inl e \<Rightarrow> Inl e | Inr bs \<Rightarrow> Inr (b # bs)))"

definition VecEnv_construct ::
  "('c, 'b, 'k, 'x, 'a) backend_cls \<Rightarrow> 'c binding \<Rightarrow> int \<Rightarrow> int \<Rightarrow> error + ('c, 'b, 'k) VecEnv" where
  "VecEnv_construct B bnd n_workers n =
     (case init_backends B (env_creator bnd) n (nat n_workers) of
        Inl e \<Rightarrow> Inl e
      | Inr bs \<Rightarrow>
          Inr \<lparr>binding = bnd, num_workers = n_workers, envs_per_worker = n,
               state = RESET, backends = bs, agent_keys = None\<rparr>)"

definition VecEnv_init ::
  "('c, 'b, 'k, 'x, 'a) backend_cls \<Rightarrow> 'c binding \<Rightarrow> int \<Rightarrow> pyobj \<Rightarrow> error + ('c, 'b, 'k) VecEnv" where
  "VecEnv_init B bnd n_workers n_envs =
     (case n_envs of
        Py_other (Inl e) \<Rightarrow> Inl e
      | Py_other (Inr False) \<Rightarrow> Inl (AssertionError ''Each worker must have at least 1 env'')
      | Py_other (Inr True) \<Rightarrow> Inl (AssertionError [])
      | Py_int n \<Rightarrow>
          (if \<not> n > 0 then Inl (AssertionError ''Each worker must have at least 1 env'')
           else VecEnv_construct B bnd n_workers n))"

subsection \<open>close\<close>

fun close_loop ::
  "('c, 'b, 'k, 'x, 'a) backend_cls \<Rightarrow> 'b list \<Rightarrow> (error + unit) \<times> 'b list" where
  "close_loop B [] = (Inr (), [])"
| "close_loop B (backend # rest) =
     (case cls_close B backend of
        (Inl e, b') \<Rightarrow> (Inl e, b' # rest)
      | (Inr _, b') \<Rightarrow> (let (r, bs') = close_loop B rest in (r, b' # bs')))"

definition VecEnv_close ::
  "('c, 'b, 'k, 'x, 'a) backend_cls \<Rightarrow> ('c, 'b, 'k) VecEnv \<Rightarrow> (error + unit) \<times> ('c, 'b, 'k) VecEnv" where
  "VecEnv_close B v = (let (r, bs') = close_loop B (backends v) in (r, v\<lparr>backends := bs'\<rparr>))"

subsection \<open>async_reset\<close>

text \<open>
  The loop of \<open>async_reset\<close>; \<open>inc\<close> is \<open>self.envs_per_worker * self.binding.max_agents\<close>.
\<close>

fun async_reset_loop ::
  "('c, 'b, 'k, 'x, 'a) backend_cls \<Rightarrow> int \<Rightarrow> int option \<Rightarrow> 'b list \<Rightarrow> (error + unit) \<times> 'b list" where
  "async_reset_loop B inc seed [] = (Inr (), [])"
| "async_reset_loop B inc seed (backend # rest) =
     (case cls_async_reset_all B seed backend of
        (Inl e, b') \<Rightarrow> (Inl e, b' # rest)
      | (Inr _, b') \<Rightarrow>
          (let (r, bs') = async_reset_loop B inc (seed_add seed inc) rest in (r, b' # bs')))"

definition VecEnv_async_reset ::
  "('c, 'b, 'k, 'x, 'a) backend_cls \<Rightarrow> int option \<Rightarrow> ('c, 'b, 'k) VecEnv
     \<Rightarrow> (error + unit) \<times> ('c, 'b, 'k) VecEnv" where
  "VecEnv_async_reset B seed v =
     (if state v \<noteq> RESET then (Inl (AssertionError ''Call reset only once on initialization''), v)
      else (let v1 = v\<lparr>state := RECV\<rparr>;
                (r, bs') = async_reset_loop B (envs_per_worker v * max_agents (binding v)) seed
                             (backends v)
            in (r, v1\<lparr>backends := bs'\<rparr>)))"

subsection \<open>recv\<close>

text \<open>The inner loop \<open>for o, r, d, i in envs\<close> over a list of result tuples.\<close>

fun recv_envs ::
  "('k, 'x) result list
     \<Rightarrow> 'k list list \<times> 'x list list \<times> int list \<times> bool list \<times> ('k, string) dict list" where
  "recv_envs [] = ([], [], [], [], [])"
| "recv_envs ((ob, r, d, i) # rest) =
     (let (a_keys, obs, rewards, dones, infos) = recv_envs rest
      in (keys ob # a_keys, vals ob @ obs, vals r @ rewards, vals d @ dones, i # infos))"

text \<open>
  The same loop over whatever the backend returned. A header \<open>(n, dones)\<close> starts with an
  \<open>int\<close>, which cannot be unpacked (\<open>TypeError\<close>). A pair \<open>(view, dones)\<close> starts with an
  array, which unpacks into \<open>o, r, d, i\<close> only when it has four rows (\<open>ValueError\<close>
  otherwise), and then \<open>o.keys()\<close> fails on the array row (\<open>AttributeError\<close>).
\<close>

definition iterate_envs ::
  "('k, 'x) pyval
     \<Rightarrow> error + ('k list list \<times> 'x list list \<times> int list \<times> bool list \<times> ('k, string) dict list)" where
  "iterate_envs ret =
     (case ret of
        Result_list rs \<Rightarrow> Inr (recv_envs rs)
      | Header n ds \<Rightarrow> Inl TypeError
      | Obs_view rows ds \<Rightarrow> (if length rows \<noteq> 4 then Inl ValueError else Inl AttributeError))"

text \<open>
  The outer loop. Its third component is \<open>self.agent_keys\<close> as the loop leaves it: an
  exception at one backend leaves the entries of the backends before it.
\<close>

fun recv_loop ::
  "('c, 'b, 'k, 'x, 'a) backend_cls \<Rightarrow> 'b list
     \<Rightarrow> (error + ('x list list \<times> int list \<times> bool list \<times> ('k, string) dict list))
         \<times> 'b list \<times> 'k list list list" where
  "recv_loop B [] = (Inr ([], [], [], []), [], [])"
| "recv_loop B (backend # rest) =
     (case cls_recv B backend of
        (Inl e, b') \<Rightarrow> (Inl e, b' # rest, [])
      | (Inr ret, b') \<Rightarrow>
          (case iterate_envs ret of
             Inl e \<Rightarrow> (Inl e, b' # rest, [])
           | Inr (a_keys, obs, rewards, dones, infos) \<Rightarrow>
               (case recv_loop B rest of
                  (Inl e, bs', ks) \<Rightarrow> (Inl e, b' # bs', a_keys # ks)
                | (Inr (obs', rewards', dones', infos'), bs', ks) \<Rightarrow>
                    (Inr (obs @ obs', rewards @ rewards', dones @ dones', infos @ infos'),
                     b' # bs', a_keys # ks))))"

text \<open>
  \<open>np.stack(obs)\<close> needs at least one array, and all arrays of one shape; otherwise it
  raises \<open>ValueError\<close>. It then promotes the arrays to one dtype. The stacked batch is
  the list of its rows.
\<close>

definition np_stack :: "('a, 'x) numpy \<Rightarrow> 'x list list \<Rightarrow> error + 'x list list" where
  "np_stack N arrays =
     (if arrays = [] then Inl ValueError
      else if \<not> list_all (\<lambda>a. length a = length (hd arrays)) arrays then Inl ValueError
      else (case stack_raises N arrays of
              Some e \<Rightarrow> Inl e
            | None \<Rightarrow> Inr (map (stack_cast N arrays) arrays)))"

definition VecEnv_recv ::
  "('a, 'x) numpy \<Rightarrow> ('c, 'b, 'k, 'x, 'a) backend_cls \<Rightarrow> ('c, 'b, 'k) VecEnv
     \<Rightarrow> (error + ('x list list \<times> int list \<times> bool list \<times> ('k, string) dict list))
         \<times> ('c, 'b, 'k) VecEnv" where
  "VecEnv_recv N B v =
     (if state v \<noteq> RECV then (Inl (AssertionError ''Call reset before stepping''), v)
      else (case recv_loop B (backends v) of
              (r, bs', ks) \<Rightarrow>
                (let v2 = v\<lparr>state := SEND, backends := bs', agent_keys := Some ks\<rparr>
                 in case r of
                      Inl e \<Rightarrow> (Inl e, v2)
                    | Inr (obs, rewards, dones, infos) \<Rightarrow>
                        (case np_stack N obs of
                           Inl e \<Rightarrow> (Inl e, v2)
                         | Inr stacked \<Rightarrow> (Inr (stacked, rewards, dones, infos), v2)))))"

subsection \<open>send\<close>

text \<open>
  \<open>np.split(ary, sections)\<close> with an integer: \<open>N % sections\<close> raises
  \<open>ZeroDivisionError\<close> for zero sections, an unequal division raises \<open>ValueError\<close>, and
  so does a negative number of sections. Otherwise the array is cut into \<open>sections\<close>
  contiguous pieces of equal length.
\<close>

definition np_split :: "'a list \<Rightarrow> int \<Rightarrow> error + 'a list list" where
  "np_split ary sections =
     (if sections = 0 then Inl ZeroDivisionError
      else if sections < 0 then Inl ValueError
      else if int (length ary) mod sections \<noteq> 0 then Inl ValueError
      else (let each = length ary div nat sections
            in Inr (map (\<lambda>i. take each (drop (i * each) ary)) [0..<nat sections])))"

text \<open>
  The action batch is a Python list or a numpy array, and \<open>send\<close> tells them apart:
  \<open>if type(actions) == list: actions = np.array(actions)\<close>. A list is converted by
  numpy, and that can raise; an array is taken as it is. The parameter \<open>env_id\<close> of
  \<open>send\<close> is not used by the method.
\<close>

datatype 'a batch = Py_list "'a list" | Nd_array "'a list"

fun as_array :: "('a, 'x) numpy \<Rightarrow> 'a batch \<Rightarrow> error + 'a list" where
  "as_array N (Py_list xs) = np_array N xs"
| "as_array N (Nd_array xs) = Inr xs"

text \<open>
  The loop of \<open>send\<close> over \<open>zip(self.backends, self.agent_keys, actions)\<close>. It returns the
  backends it ran over, as the calls left them.
\<close>

fun send_loop ::
  "('c, 'b, 'k, 'x, 'a) backend_cls \<Rightarrow> int \<Rightarrow> ('b \<times> 'k list list \<times> 'a list) list
     \<Rightarrow> (error + unit) \<times> 'b list" where
  "send_loop B n [] = (Inr (), [])"
| "send_loop B n ((backend, keys_list, atns_list) # rest) =
     (case np_split atns_list n of
        Inl e \<Rightarrow> (Inl e, backend # map fst rest)
      | Inr atns_split \<Rightarrow>
          (case cls_send B (map (\<lambda>(ks, atns). py_dict (zip ks atns)) (zip keys_list atns_split))
                  backend of
             (Inl e, b') \<Rightarrow> (Inl e, b' # map fst rest)
           | (Inr _, b') \<Rightarrow> (let (r, bs') = send_loop B n rest in (r, b' # bs'))))"

definition VecEnv_send ::
  "('a, 'x) numpy \<Rightarrow> ('c, 'b, 'k, 'x, 'a) backend_cls \<Rightarrow> 'a batch \<Rightarrow> ('c, 'b, 'k) VecEnv
     \<Rightarrow> (error + unit) \<times> ('c, 'b, 'k) VecEnv" where
  "VecEnv_send N B actions v =
     (if state v \<noteq> SEND then (Inl (AssertionError ''Call reset + recv before send''), v)
      else (let v1 = v\<lparr>state := RECV\<rparr>
            in case as_array N actions of
                 Inl e \<Rightarrow> (Inl e, v1)
               | Inr arr \<Rightarrow>
                   (case np_split arr (num_workers v) of
                      Inl e \<Rightarrow> (Inl e, v1)
                    | Inr chunks \<Rightarrow>
                        (case agent_keys v of
                           None \<Rightarrow> (Inl AttributeError, v1)
                         | Some ks \<Rightarrow>
                             (let (r, bs') = send_loop B (envs_per_worker v)
                                               (zip (backends v) (zip ks chunks))
                              in (r, v1\<lparr>backends := bs' @ drop (length bs') (backends v)\<rparr>))))))"

subsection \<open>reset and step\<close>

text \<open>
  \<open>reset(self, seed=None)\<close> calls \<open>self.async_reset()\<close> with no argument and returns
  \<open>self.recv()[0]\<close>; \<open>step\<close> is \<open>send\<close> then \<open>recv\<close>.
\<close>

definition VecEnv_reset ::
  "('a, 'x) numpy \<Rightarrow> ('c, 'b, 'k, 'x, 'a) backend_cls \<Rightarrow> int option \<Rightarrow> ('c, 'b, 'k) VecEnv
     \<Rightarrow> (error + 'x list list) \<times> ('c, 'b, 'k) VecEnv" where
  "VecEnv_reset N B seed v =
     (case VecEnv_async_reset B None v of
        (Inl e, v1) \<Rightarrow> (Inl e, v1)
      | (Inr _, v1) \<Rightarrow>
          (case VecEnv_recv N B v1 of
             (Inl e, v2) \<Rightarrow> (Inl e, v2)
           | (Inr ret, v2) \<Rightarrow> (Inr (fst ret), v2)))"

definition VecEnv_step ::
  "('a, 'x) numpy \<Rightarrow> ('c, 'b, 'k, 'x, 'a) backend_cls \<Rightarrow> 'a batch \<Rightarrow> ('c, 'b, 'k) VecEnv
     \<Rightarrow> (error + ('x list list \<times> int list \<times> bool list \<times> ('k, string) dict list))
         \<times> ('c, 'b, 'k) VecEnv" where
  "VecEnv_step N B actions v =
     (case VecEnv_send N B actions v of
        (Inl e, v1) \<Rightarrow> (Inl e, v1)
      | (Inr _, v1) \<Rightarrow> VecEnv_recv N B v1)"

section \<open>A small environment for concrete runs\<close>

text \<open>
  One agent with key \<open>0\<close>. The state is the seed of the last reset and the number of
  steps since; the observation after a reset is the seed (\<open>0\<close> without one), the
  observation after a step is the seed plus the submitted actions, and the episode is
  done after two steps.
\<close>

definition toy_env :: "(int \<times> nat, nat, int, int) env_ops" where
  "toy_env =
     \<lparr>env_reset = (\<lambda>seed s. ([(0, [case seed of None \<Rightarrow> 0 | Some z \<Rightarrow> z])],
                               (case seed of None \<Rightarrow> 0 | Some z \<Rightarrow> z, 0))),
      env_step = (\<lambda>actions (z, t).
                    (([(0, [z + sum_list (map snd actions)])], [(0, 1)], [(0, 2 \<le> Suc t)], []),
                     (z, Suc t))),
      env_done = (\<lambda>(z, t). 2 \<le> t)\<rparr>"

text \<open>
  The numpy of these runs: it raises nowhere and changes no value, as numpy does on lists
  and arrays of small integers, which it holds as 64-bit integers.
\<close>

definition np_exact :: "(int, int) numpy" where
  "np_exact =
     \<lparr>array_raises = (\<lambda>xs. None), array_cast = (\<lambda>xs a. a),
      stack_raises = (\<lambda>arrays. None), stack_cast = (\<lambda>arrays row. row)\<rparr>"

definition toy_binding :: "(unit \<Rightarrow> int \<times> nat) binding" where
  "toy_binding = \<lparr>env_creator = (\<lambda>_. (0, 0)), max_agents = 1\<rparr>"

text \<open>The orchestrator \<open>VecEnv(toy_binding, Serial, 1, 1)\<close> as constructed.\<close>

definition toy_v0 ::
  "(unit \<Rightarrow> int \<times> nat, (int \<times> nat, nat, int) Serial_state, nat) VecEnv" where
  "toy_v0 =
     \<lparr>binding = toy_binding, num_workers = 1, envs_per_worker = 1, state = RESET,
      backends = [\<lparr>envs = [(0, 0)], async_handles = None\<rparr>], agent_keys = None\<rparr>"

text \<open>Two workers with two environments each, before the reset; \<open>max_agents\<close> is 2.\<close>

definition toy_grid ::
  "(unit \<Rightarrow> int \<times> nat, (int \<times> nat, nat, int) Serial_state, nat) VecEnv" where
  "toy_grid =
     \<lparr>binding = \<lparr>env_creator = (\<lambda>_. (0, 0)), max_agents = 2\<rparr>,
      num_workers = 2, envs_per_worker = 2, state = RESET,
      backends = [\<lparr>envs = [(0, 0), (0, 0)], async_handles = None\<rparr>,
                  \<lparr>envs = [(0, 0), (0, 0)], async_handles = None\<rparr>],
      agent_keys = None\<rparr>"








section \<open>Evaluation rules for concrete runs\<close>

lemmas toy_defs =
  toy_env_def toy_binding_def toy_v0_def toy_grid_def
  Serial_def Serial_init_def Serial_async_reset_all_def Serial_send_def Serial_recv_def
  Backend_close_def MultiEnv_init_def MultiEnv_step_def step_env_def seed_add_def
  py_dict_def keys_def vals_def
  VecEnv_init_def VecEnv_construct_def VecEnv_async_reset_def VecEnv_recv_def VecEnv_send_def
  VecEnv_close_def VecEnv_reset_def VecEnv_step_def iterate_envs_def np_stack_def np_split_def
  np_exact_def np_array_def

lemma toy_construct: "VecEnv_init (Serial toy_env) toy_binding 1 (Py_int 1) = Inr toy_v0"
  by (simp add: toy_defs)

lemma toy_async_reset:
  "VecEnv_async_reset (Serial toy_env) (Some 5) toy_v0 =
     (Inr (), toy_v0\<lparr>state := RECV,
        backends := [\<lparr>envs = [(5, 0)], async_handles = Some [([(0, [5])], [], [], [])]\<rparr>]\<rparr>)"
  by (simp add: toy_defs)

lemma toy_recv:
  "VecEnv_recv np_exact (Serial toy_env)
     (toy_v0\<lparr>state := RECV,
        backends := [\<lparr>envs = [(5, 0)], async_handles = Some [([(0, [5])], [], [], [])]\<rparr>]\<rparr>) =
     (Inr ([[5]], [], [], [[]]),
      toy_v0\<lparr>state := SEND, backends := [\<lparr>envs = [(5, 0)], async_handles = None\<rparr>],
        agent_keys := Some [[[0]]]\<rparr>)"
  by (simp add: toy_defs)


lemma toy_grid_async_reset:
  "VecEnv_async_reset (Serial toy_env) (Some 5) toy_grid =
     (Inr (), toy_grid\<lparr>state := RECV,
        backends := [\<lparr>envs = [(5, 0), (6, 0)],
                      async_handles = Some [([(0, [5])], [], [], []), ([(0, [6])], [], [], [])]\<rparr>,
                     \<lparr>envs = [(9, 0), (10, 0)],
                      async_handles = Some [([(0, [9])], [], [], []), ([(0, [10])], [], [], [])]\<rparr>]\<rparr>)"
  by (simp add: toy_defs)










section \<open>The call-order state machine\<close>










section \<open>Dicts built from pairs\<close>

lemma update_fresh: "k \<notin> fst ` set d \<Longrightarrow> AList.update k v d = d @ [(k, v)]"
  by (induction d) auto

lemma fold_update_distinct:
  "distinct (map fst (d @ ps)) \<Longrightarrow> fold (\<lambda>(k, v) d. AList.update k v d) ps d = d @ ps"
proof (induction ps arbitrary: d)
  case Nil
  then show ?case by simp
next
  case (Cons p ps)
  obtain k v where p: "p = (k, v)" by (cases p)
  from Cons.prems have "k \<notin> fst ` set d" by (auto simp: p)
  then have "AList.update k v d = d @ [(k, v)]" by (rule update_fresh)
  moreover from Cons.prems have "distinct (map fst ((d @ [(k, v)]) @ ps))" by (simp add: p)
  ultimately show ?case using Cons.IH[of "d @ [(k, v)]"] by (simp add: p)
qed

lemma py_dict_distinct: "distinct (map fst ps) \<Longrightarrow> py_dict ps = ps"
  using fold_update_distinct[of "[]" ps] by (simp add: py_dict_def)

lemma fold_update_keys:
  "fst ` set (fold (\<lambda>(k, v) d. AList.update k v d) ps d) = fst ` set d \<union> fst ` set ps"
  by (induction ps arbitrary: d) (auto simp: dom_update split: prod.splits)

lemma set_update_subset: "set (AList.update k v d) \<subseteq> insert (k, v) (set d)"
  by (induction d) auto

lemma fold_update_subset:
  "set (fold (\<lambda>(k, v) d. AList.update k v d) ps d) \<subseteq> set d \<union> set ps"
proof (induction ps arbitrary: d)
  case Nil
  then show ?case by simp
next
  case (Cons p ps)
  obtain k v where p: "p = (k, v)" by (cases p)
  show ?case using Cons.IH[of "AList.update k v d"] set_update_subset[of k v d]
    by (auto simp: p)
qed


lemma keys_py_dict: "set (keys (py_dict ps)) = fst ` set ps"
  using fold_update_keys[of ps "[]"] by (simp add: py_dict_def keys_def)

lemma py_dict_subset: "set (py_dict ps) \<subseteq> set ps"
  using fold_update_subset[of ps "[]"] by (simp add: py_dict_def)


lemma py_dict_const:
  "set (keys (py_dict (map (\<lambda>k. (k, c)) ks))) = set ks
   \<and> set (vals (py_dict (map (\<lambda>k. (k, c)) ks))) \<subseteq> {c}
   \<and> (distinct ks \<longrightarrow> py_dict (map (\<lambda>k. (k, c)) ks) = map (\<lambda>k. (k, c)) ks)"
proof -
  have "set (keys (py_dict (map (\<lambda>k. (k, c)) ks))) = set ks"
    by (simp add: keys_py_dict image_image)
  moreover have "set (vals (py_dict (map (\<lambda>k. (k, c)) ks))) \<subseteq> {c}"
    using py_dict_subset[of "map (\<lambda>k. (k, c)) ks"] by (auto simp: vals_def)
  moreover have "distinct ks \<longrightarrow> py_dict (map (\<lambda>k. (k, c)) ks) = map (\<lambda>k. (k, c)) ks"
    by (simp add: py_dict_distinct comp_def)
  ultimately show ?thesis by blast
qed

section \<open>MultiEnv.step: the auto-reset policy\<close>

lemma step_loop_length:
  "length (fst (step_loop E xs)) = length xs \<and> length (snd (step_loop E xs)) = length xs"
  by (induction E xs rule: step_loop.induct) (auto simp: Let_def split: prod.splits)

lemma step_loop_nth:
  "i < length xs \<Longrightarrow>
   (fst (step_loop E xs) ! i, snd (step_loop E xs) ! i) = step_env E (fst (xs ! i)) (snd (xs ! i))"
proof (induction xs arbitrary: i)
  case Nil
  then show ?case by simp
next
  case (Cons x xs)
  obtain env actions where x: "x = (env, actions)" by (cases x)
  show ?case
  proof (cases i)
    case 0
    then show ?thesis by (simp add: x Let_def split: prod.splits)
  next
    case (Suc j)
    with Cons.prems have "j < length xs" by simp
    from Cons.IH[OF this] Suc show ?thesis
      by (auto simp: x Let_def split: prod.splits)
  qed
qed

text \<open>
  C2. A call \<open>step(actions_lists)\<close> with one entry per environment returns one result
  per environment. Where \<open>env.done\<close> was set, the environment is reset (with no seed),
  the result is the observation of that reset with a reward \<open>0\<close> and a done flag
  \<open>False\<close> for each of its agent keys and an empty info map, and the new environment
  state is the state after the reset: the submitted actions of that slot are not used.
  Otherwise result and new state are those of \<open>env.step\<close> on the slot's actions.
\<close>

theorem MultiEnv_step_auto_reset:
  assumes "length actions_lists = length es"
  shows "\<exists>returns es'.
           MultiEnv_step E actions_lists es = Inr (returns, es')
           \<and> length returns = length es \<and> length es' = length es
           \<and> (\<forall>i<length es.
                 if env_done E (es ! i) then
                   (\<exists>ob rewards dones.
                      env_reset E None (es ! i) = (ob, es' ! i)
                      \<and> returns ! i = (ob, rewards, dones, [])
                      \<and> set (keys rewards) = set (keys ob) \<and> set (vals rewards) \<subseteq> {0}
                      \<and> set (keys dones) = set (keys ob) \<and> set (vals dones) \<subseteq> {False}
                      \<and> (distinct (keys ob) \<longrightarrow>
                            rewards = map (\<lambda>k. (k, 0)) (keys ob)
                            \<and> dones = map (\<lambda>k. (k, False)) (keys ob)))
                 else env_step E (actions_lists ! i) (es ! i) = (returns ! i, es' ! i))"
proof -
  let ?xs = "zip es actions_lists"
  let ?returns = "fst (step_loop E ?xs)" and ?es' = "snd (step_loop E ?xs)"
  have len: "length ?xs = length es" using assms by simp
  have 1: "MultiEnv_step E actions_lists es = Inr (?returns, ?es')"
    using assms by (simp add: MultiEnv_step_def)
  have 2: "length ?returns = length es \<and> length ?es' = length es"
    using step_loop_length[of E ?xs] len by simp
  have 3: "if env_done E (es ! i) then
                   (\<exists>ob rewards dones.
                      env_reset E None (es ! i) = (ob, ?es' ! i)
                      \<and> ?returns ! i = (ob, rewards, dones, [])
                      \<and> set (keys rewards) = set (keys ob) \<and> set (vals rewards) \<subseteq> {0}
                      \<and> set (keys dones) = set (keys ob) \<and> set (vals dones) \<subseteq> {False}
                      \<and> (distinct (keys ob) \<longrightarrow>
                            rewards = map (\<lambda>k. (k, 0)) (keys ob)
                            \<and> dones = map (\<lambda>k. (k, False)) (keys ob)))
                 else env_step E (actions_lists ! i) (es ! i) = (?returns ! i, ?es' ! i)"
    if i: "i < length es" for i
  proof -
    have nth: "(?returns ! i, ?es' ! i) = step_env E (es ! i) (actions_lists ! i)"
      using step_loop_nth[of i ?xs E] i assms by simp
    show ?thesis
    proof (cases "env_done E (es ! i)")
      case True
      obtain ob e' where r: "env_reset E None (es ! i) = (ob, e')" by (cases "env_reset E None (es ! i)")
      from nth True r have
        "?returns ! i = (ob, py_dict (map (\<lambda>k. (k, 0)) (keys ob)), py_dict (map (\<lambda>k. (k, False)) (keys ob)), [])"
        and "?es' ! i = e'"
        by (simp_all add: step_env_def Let_def)
      with r True py_dict_const[of "0::int" "keys ob"] py_dict_const[of False "keys ob"]
      show ?thesis by auto
    next
      case False
      with nth show ?thesis by (simp add: step_env_def)
    qed
  qed
  from 1 2 3 show ?thesis by blast
qed

theorem MultiEnv_step_auto_reset_witness:
  "length [[(0::nat, 10::int)], [(0, 20)]] = length [(3::int, 2::nat), (4, 0)]
   \<and> MultiEnv_step toy_env [[(0, 10)], [(0, 20)]] [(3, 2), (4, 0)] =
       Inr ([([(0, [0])], [(0, 0)], [(0, False)], []), ([(0, [24])], [(0, 1)], [(0, False)], [])],
            [(0, 0), (4, 1)])"
  using MultiEnv_step_auto_reset[of "[[(0, 10)], [(0, 20)]]" "[(3, 2), (4, 0)]" toy_env]
  by (simp add: toy_defs)

section \<open>async_reset: the seeds of workers and environments\<close>

lemma seed_add_add: "seed_add (seed_add seed a) b = seed_add seed (a + b)"
  by (cases seed) (simp_all add: seed_add_def)

lemma seed_add_0: "seed_add seed 0 = seed"
  by (cases seed) (simp_all add: seed_add_def)

lemma async_reset_loop_nth:
  "async_reset_loop B inc seed bs = (Inr (), bs') \<Longrightarrow>
   length bs' = length bs
   \<and> (\<forall>w<length bs.
         cls_async_reset_all B (seed_add seed (int w * inc)) (bs ! w) = (Inr (), bs' ! w))"
proof (induction bs arbitrary: seed bs')
  case Nil
  then show ?case by simp
next
  case (Cons b bs)
  from Cons.prems obtain b' bs'' where
    hd: "cls_async_reset_all B seed b = (Inr (), b')" and
    tl: "async_reset_loop B inc (seed_add seed inc) bs = (Inr (), bs'')" and
    eq: "bs' = b' # bs''"
    by (auto split: prod.splits sum.splits)
  from Cons.IH[OF tl] have len: "length bs'' = length bs"
    and ih: "\<And>w. w < length bs \<Longrightarrow>
      cls_async_reset_all B (seed_add (seed_add seed inc) (int w * inc)) (bs ! w) = (Inr (), bs'' ! w)"
    by auto
  have "cls_async_reset_all B (seed_add seed (int w * inc)) ((b # bs) ! w) = (Inr (), bs' ! w)"
    if "w < length (b # bs)" for w
  proof (cases w)
    case 0
    then show ?thesis using hd eq by (simp add: seed_add_0)
  next
    case (Suc u)
    with that have "u < length bs" by simp
    from ih[OF this] show ?thesis
      by (simp add: Suc eq seed_add_add algebra_simps)
  qed
  with len eq show ?case by simp
qed

lemma MultiEnv_reset_all_length:
  "length (fst (MultiEnv_reset_all E seed es)) = length es
   \<and> length (snd (MultiEnv_reset_all E seed es)) = length es"
  by (induction es arbitrary: seed) (simp_all add: Let_def case_prod_unfold)

lemma MultiEnv_reset_all_nth:
  "j < length es \<Longrightarrow>
   fst (MultiEnv_reset_all E seed es) ! j =
     (fst (env_reset E (seed_add seed (int j)) (es ! j)), [], [], [])
   \<and> snd (MultiEnv_reset_all E seed es) ! j = snd (env_reset E (seed_add seed (int j)) (es ! j))"
proof (induction es arbitrary: seed j)
  case Nil
  then show ?case by simp
next
  case (Cons e es)
  show ?case
  proof (cases j)
    case 0
    then show ?thesis by (simp add: Let_def seed_add_0 case_prod_unfold)
  next
    case (Suc u)
    with Cons.prems have "u < length es" by simp
    from Cons.IH[OF this, of "seed_add seed 1"] show ?thesis
      by (simp add: Suc Let_def seed_add_add algebra_simps case_prod_unfold)
  qed
qed

lemma seed_ranges_disjoint:
  fixes s e m :: int and w w' :: nat
  assumes "1 \<le> m" "w \<noteq> w'"
  shows "{s + int w * (e * m) ..< s + int w * (e * m) + e}
           \<inter> {s + int w' * (e * m) ..< s + int w' * (e * m) + e} = {}"
proof (cases "0 < e")
  case False
  then show ?thesis by auto
next
  case True
  have step: "a < b \<Longrightarrow> int a * (e * m) + e \<le> int b * (e * m)" for a b :: nat
  proof -
    assume "a < b"
    then have "int a + 1 \<le> int b" by simp
    then have "(int a + 1) * (e * m) \<le> int b * (e * m)"
      using True assms(1) by (intro mult_right_mono) auto
    moreover have "e \<le> e * m" using True assms(1) by (simp add: mult_le_cancel_left1)
    ultimately show ?thesis by (simp add: algebra_simps)
  qed
  from assms(2) consider "w < w'" | "w' < w" by linarith
  then show ?thesis
  proof cases
    case 1
    from step[OF this] show ?thesis by auto
  next
    case 2
    from step[OF this] show ?thesis by auto
  qed
qed


lemma VecEnv_async_reset_backends:
  assumes "VecEnv_async_reset B seed v = (Inr (), v')"
  shows "length (backends v') = length (backends v)
         \<and> (\<forall>w<length (backends v).
               cls_async_reset_all B
                 (seed_add seed (int w * (envs_per_worker v * max_agents (binding v))))
                 (backends v ! w) = (Inr (), backends v' ! w))"
proof -
  from assms obtain bs' where
    loop: "async_reset_loop B (envs_per_worker v * max_agents (binding v)) seed (backends v)
             = (Inr (), bs')"
    and v': "backends v' = bs'"
    by (auto simp: VecEnv_async_reset_def Let_def split: if_splits prod.splits)
  from async_reset_loop_nth[OF loop] v' show ?thesis by simp
qed

lemma Serial_async_reset_all_envs:
  assumes "Serial_async_reset_all E seed b = (Inr (), b')"
  shows "envs b' = snd (MultiEnv_reset_all E seed (envs b))
         \<and> async_handles b' = Some (fst (MultiEnv_reset_all E seed (envs b)))"
  using assms
  by (auto simp: Serial_async_reset_all_def Let_def split: if_splits prod.splits)

text \<open>
  C5. When \<open>async_reset(seed = s)\<close> returns normally, worker \<open>w\<close> (counted from 0) was
  called with \<open>async_reset_all(seed = s + w * envs_per_worker * max_agents)\<close>.
  \<open>MultiEnv.reset_all(seed = b)\<close> resets environment \<open>j\<close> with seed \<open>b + j\<close>; so with
  \<open>Serial\<close> backends environment \<open>j\<close> of worker \<open>w\<close> is reset with seed
  \<open>s + w * envs_per_worker * max_agents + j\<close>. With \<open>max_agents \<ge> 1\<close> the seed ranges
  \<open>[base, base + envs_per_worker)\<close> of two different workers are disjoint.
\<close>

theorem VecEnv_async_reset_seeds:
  "(VecEnv_async_reset B (Some s) v = (Inr (), v') \<longrightarrow>
      length (backends v') = length (backends v)
      \<and> (\<forall>w<length (backends v).
            cls_async_reset_all B
              (Some (s + int w * (envs_per_worker v * max_agents (binding v))))
              (backends v ! w) = (Inr (), backends v' ! w)))
   \<and> (\<forall>j<length es.
         fst (MultiEnv_reset_all E (Some b) es) ! j =
           (fst (env_reset E (Some (b + int j)) (es ! j)), [], [], [])
         \<and> snd (MultiEnv_reset_all E (Some b) es) ! j =
             snd (env_reset E (Some (b + int j)) (es ! j)))
   \<and> (VecEnv_async_reset (Serial E) (Some s) u = (Inr (), u') \<longrightarrow>
        (\<forall>w<length (backends u). \<forall>j<length (envs (backends u ! w)).
           envs (backends u' ! w) ! j =
             snd (env_reset E
                    (Some (s + int w * (envs_per_worker u * max_agents (binding u)) + int j))
                    (envs (backends u ! w) ! j))))
   \<and> (1 \<le> max_agents (binding v) \<and> w1 \<noteq> w2 \<longrightarrow>
        {s + int w1 * (envs_per_worker v * max_agents (binding v)) ..<
           s + int w1 * (envs_per_worker v * max_agents (binding v)) + envs_per_worker v}
        \<inter> {s + int w2 * (envs_per_worker v * max_agents (binding v)) ..<
             s + int w2 * (envs_per_worker v * max_agents (binding v)) + envs_per_worker v}
        = {})"
proof -
  have A: "length (backends v') = length (backends v)
      \<and> (\<forall>w<length (backends v).
            cls_async_reset_all B
              (Some (s + int w * (envs_per_worker v * max_agents (binding v))))
              (backends v ! w) = (Inr (), backends v' ! w))"
    if "VecEnv_async_reset B (Some s) v = (Inr (), v')"
    using VecEnv_async_reset_backends[OF that] by (simp add: seed_add_def)
  have Bm: "fst (MultiEnv_reset_all E (Some b) es) ! j =
           (fst (env_reset E (Some (b + int j)) (es ! j)), [], [], [])
         \<and> snd (MultiEnv_reset_all E (Some b) es) ! j =
             snd (env_reset E (Some (b + int j)) (es ! j))"
    if "j < length es" for j b es
    using MultiEnv_reset_all_nth[OF that, of E "Some b"] by (simp add: seed_add_def)
  have D: "envs (backends u' ! w) ! j =
             snd (env_reset E
                    (Some (s + int w * (envs_per_worker u * max_agents (binding u)) + int j))
                    (envs (backends u ! w) ! j))"
    if ok: "VecEnv_async_reset (Serial E) (Some s) u = (Inr (), u')"
      and w: "w < length (backends u)" and j: "j < length (envs (backends u ! w))" for w j
  proof -
    from VecEnv_async_reset_backends[OF ok] w have
      "Serial_async_reset_all E
         (Some (s + int w * (envs_per_worker u * max_agents (binding u))))
         (backends u ! w) = (Inr (), backends u' ! w)"
      by (simp add: seed_add_def Serial_def)
    from Serial_async_reset_all_envs[OF this] Bm[OF j] show ?thesis by simp
  qed
  have C: "{s + int w1 * (envs_per_worker v * max_agents (binding v)) ..<
           s + int w1 * (envs_per_worker v * max_agents (binding v)) + envs_per_worker v}
        \<inter> {s + int w2 * (envs_per_worker v * max_agents (binding v)) ..<
             s + int w2 * (envs_per_worker v * max_agents (binding v)) + envs_per_worker v}
        = {}"
    if "1 \<le> max_agents (binding v)" "w1 \<noteq> w2"
    using seed_ranges_disjoint[OF that] .
  from A Bm D C show ?thesis by blast
qed

theorem VecEnv_async_reset_seeds_witness:
  "VecEnv_async_reset (Serial toy_env) (Some 5) toy_grid =
     (Inr (), toy_grid\<lparr>state := RECV,
        backends := [\<lparr>envs = [(5, 0), (6, 0)],
                      async_handles = Some [([(0, [5])], [], [], []), ([(0, [6])], [], [], [])]\<rparr>,
                     \<lparr>envs = [(9, 0), (10, 0)],
                      async_handles = Some [([(0, [9])], [], [], []), ([(0, [10])], [], [], [])]\<rparr>]\<rparr>)
   \<and> (1::int) \<le> max_agents (binding toy_grid) \<and> (0::nat) \<noteq> 1
   \<and> {5 + int 0 * (envs_per_worker toy_grid * max_agents (binding toy_grid)) ..<
        5 + int 0 * (envs_per_worker toy_grid * max_agents (binding toy_grid))
          + envs_per_worker toy_grid}
      \<inter> {5 + int 1 * (envs_per_worker toy_grid * max_agents (binding toy_grid)) ..<
           5 + int 1 * (envs_per_worker toy_grid * max_agents (binding toy_grid))
             + envs_per_worker toy_grid} = {}
   \<and> length [(0::int, 0::nat), (0, 0)] = 2
   \<and> snd (MultiEnv_reset_all toy_env (Some 9) [(0, 0), (0, 0)]) = [(9, 0), (10, 0)]"
  using VecEnv_async_reset_seeds[of "Serial toy_env" 5 toy_grid
      "toy_grid\<lparr>state := RECV,
        backends := [\<lparr>envs = [(5, 0), (6, 0)],
                      async_handles = Some [([(0, [5])], [], [], []), ([(0, [6])], [], [], [])]\<rparr>,
                     \<lparr>envs = [(9, 0), (10, 0)],
                      async_handles = Some [([(0, [9])], [], [], []), ([(0, [10])], [], [], [])]\<rparr>]\<rparr>"
      "[(0, 0), (0, 0)]" toy_env 9 toy_grid
      "toy_grid\<lparr>state := RECV,
        backends := [\<lparr>envs = [(5, 0), (6, 0)],
                      async_handles = Some [([(0, [5])], [], [], []), ([(0, [6])], [], [], [])]\<rparr>,
                     \<lparr>envs = [(9, 0), (10, 0)],
                      async_handles = Some [([(0, [9])], [], [], []), ([(0, [10])], [], [], [])]\<rparr>]\<rparr>"
      0 1]
  by (simp add: toy_grid_async_reset) (simp add: toy_defs)

section \<open>Construction\<close>

lemma init_backends_replicate:
  "cls_init B c n = Inr b \<Longrightarrow> init_backends B c n m = Inr (replicate m b)"
  by (induction m) simp_all

lemma init_backends_length:
  "init_backends B c n m = Inr bs \<Longrightarrow>
   length bs = m \<and> list_all (\<lambda>b. cls_init B c n = Inr b) bs"
  by (induction m arbitrary: bs) (auto split: sum.splits)

text \<open>
  C9. For every backend class, also one whose constructor raises: an \<open>envs_per_worker\<close>
  of type \<open>int\<close> that is zero or negative, and an \<open>envs_per_worker\<close> of any other type,
  make the constructor of \<open>VecEnv\<close> raise, and the error is the one of the validation
  (it does not depend on the backend class, whose constructor has not been called). With
  a positive \<open>int\<close> and a worker count \<open>num_workers \<ge> 0\<close>, a construction that returns
  holds exactly \<open>num_workers\<close> backends, each the result of one constructor call; and it
  does return when the backend constructor does.
\<close>

theorem VecEnv_init_validation:
  "(n \<le> 0 \<longrightarrow>
      VecEnv_init B bnd W (Py_int n) =
        Inl (AssertionError ''Each worker must have at least 1 env''))
   \<and> VecEnv_init B bnd W (Py_other c) =
       Inl (case c of
              Inl e \<Rightarrow> e
            | Inr True \<Rightarrow> AssertionError []
            | Inr False \<Rightarrow> AssertionError ''Each worker must have at least 1 env'')
   \<and> (0 < n \<and> 0 \<le> W \<and> VecEnv_init B bnd W (Py_int n) = Inr v \<longrightarrow>
        int (length (backends v)) = W \<and> num_workers v = W \<and> envs_per_worker v = n
        \<and> list_all (\<lambda>b. cls_init B (env_creator bnd) n = Inr b) (backends v))
   \<and> (0 < n \<and> cls_init B (env_creator bnd) n = Inr b \<longrightarrow>
        VecEnv_init B bnd W (Py_int n) =
          Inr \<lparr>binding = bnd, num_workers = W, envs_per_worker = n, state = RESET,
               backends = replicate (nat W) b, agent_keys = None\<rparr>)"
proof -
  have 1: "VecEnv_init B bnd W (Py_int n) =
        Inl (AssertionError ''Each worker must have at least 1 env'')" if "n \<le> 0"
    using that by (simp add: VecEnv_init_def)
  have 2: "VecEnv_init B bnd W (Py_other c) =
       Inl (case c of
              Inl e \<Rightarrow> e
            | Inr True \<Rightarrow> AssertionError []
            | Inr False \<Rightarrow> AssertionError ''Each worker must have at least 1 env'')"
    by (simp add: VecEnv_init_def split: sum.splits bool.splits)
  have 3: "int (length (backends v)) = W \<and> num_workers v = W \<and> envs_per_worker v = n
        \<and> list_all (\<lambda>b. cls_init B (env_creator bnd) n = Inr b) (backends v)"
    if "0 < n" "0 \<le> W" "VecEnv_init B bnd W (Py_int n) = Inr v"
  proof -
    from that obtain bs where bs: "init_backends B (env_creator bnd) n (nat W) = Inr bs"
      and v: "v = \<lparr>binding = bnd, num_workers = W, envs_per_worker = n, state = RESET,
               backends = bs, agent_keys = None\<rparr>"
      by (auto simp: VecEnv_init_def VecEnv_construct_def split: sum.splits)
    from init_backends_length[OF bs] that(2) v show ?thesis by simp
  qed
  have 4: "VecEnv_init B bnd W (Py_int n) =
          Inr \<lparr>binding = bnd, num_workers = W, envs_per_worker = n, state = RESET,
               backends = replicate (nat W) b, agent_keys = None\<rparr>"
    if "0 < n" "cls_init B (env_creator bnd) n = Inr b"
    using that init_backends_replicate[OF that(2), of "nat W"]
    by (simp add: VecEnv_init_def VecEnv_construct_def)
  from 1 2 3 4 show ?thesis by blast
qed

theorem VecEnv_init_validation_witness:
  "VecEnv_init (Serial toy_env) toy_binding 1 (Py_int 0) =
     Inl (AssertionError ''Each worker must have at least 1 env'')
   \<and> VecEnv_init (Serial toy_env) toy_binding 1 (Py_other (Inr True)) = Inl (AssertionError [])
   \<and> (0::int) < 1 \<and> (0::int) \<le> 1
   \<and> VecEnv_init (Serial toy_env) toy_binding 1 (Py_int 1) = Inr toy_v0
   \<and> int (length (backends toy_v0)) = 1
   \<and> cls_init (Serial toy_env) (env_creator toy_binding) 1 =
       Inr \<lparr>envs = [(0, 0)], async_handles = None\<rparr>"
  using VecEnv_init_validation[of 0 "Serial toy_env" toy_binding 1 "Inr True" toy_v0
          "\<lparr>envs = [(0, 0)], async_handles = None\<rparr>"]
    VecEnv_init_validation[of 1 "Serial toy_env" toy_binding 1 "Inr True" toy_v0
          "\<lparr>envs = [(0, 0)], async_handles = None\<rparr>"]
  by (simp add: toy_construct) (simp add: toy_defs)

section \<open>recv: gathering the results\<close>







lemma single_key_dict:
  "length d = 1 \<Longrightarrow> d = [(hd (keys d), hd (vals d))]"
  by (cases d) (auto simp: keys_def vals_def)



section \<open>send: sharding the action batch\<close>



lemma np_split_Inr_length:
  "np_split xs n = Inr cs \<Longrightarrow> 0 < n \<and> length cs = nat n \<and> n dvd int (length xs)"
  by (auto simp: np_split_def Let_def mod_eq_0_iff_dvd split: if_splits)

lemma send_loop_length: "length (snd (send_loop B n ts)) = length ts"
  by (induction B n ts rule: send_loop.induct)
     (auto simp: Let_def split: sum.splits prod.splits)




lemma map_fst_zip_same: "length xs = length ys \<Longrightarrow> map fst (zip xs ys) = xs"
  by (induction xs ys rule: list_induct2) simp_all











section \<open>The ordering law\<close>



section \<open>reset and step as compositions\<close>

lemma VecEnv_reset_ignores_seed: "VecEnv_reset N B seed v = VecEnv_reset N B None v"
  by (simp add: VecEnv_reset_def)

text \<open>
  C6. \<open>reset(seed)\<close> does not pass its seed on: for every seed it is \<open>reset(None)\<close>. On the
  one-environment orchestrator \<open>reset(5)\<close> returns the observation of an unseeded reset,
  \<open>[[0]]\<close>, where \<open>async_reset(5)\<close> followed by \<open>recv()\<close> returns \<open>[[5]]\<close>. \<open>step\<close> is
  \<open>send\<close> followed by \<open>recv\<close>.
\<close>

theorem VecEnv_reset_drops_seed:
  "VecEnv_reset N B seed v = VecEnv_reset N B None v
   \<and> fst (VecEnv_reset np_exact (Serial toy_env) (Some 5) toy_v0) = Inr [[0]]
   \<and> fst (VecEnv_recv np_exact (Serial toy_env) (snd (VecEnv_async_reset (Serial toy_env) (Some 5) toy_v0)))
       = Inr ([[5]], [], [], [[]])
   \<and> VecEnv_step N B acts v =
       (case VecEnv_send N B acts v of
          (Inl e, v1) \<Rightarrow> (Inl e, v1)
        | (Inr u, v1) \<Rightarrow> VecEnv_recv N B v1)"
proof -
  have "fst (VecEnv_reset np_exact (Serial toy_env) (Some 5) toy_v0) = Inr [[0]]"
    by (simp add: toy_defs)
  moreover have "fst (VecEnv_recv np_exact (Serial toy_env)
       (snd (VecEnv_async_reset (Serial toy_env) (Some 5) toy_v0))) = Inr ([[5]], [], [], [[]])"
    by (simp add: toy_async_reset toy_recv)
  ultimately show ?thesis by (simp add: VecEnv_reset_def VecEnv_step_def)
qed

section \<open>close\<close>

text \<open>
  C8. The orchestrator \<open>VecEnv(toy_binding, Serial, 1, 1)\<close>, closed right after its
  construction, raises \<open>NotImplementedError\<close>; so does \<open>close\<close> on every orchestrator
  that has at least one \<open>Serial\<close> backend.
\<close>

theorem VecEnv_close_Serial_raises:
  "VecEnv_init (Serial toy_env) toy_binding 1 (Py_int 1) = Inr toy_v0
   \<and> VecEnv_close (Serial toy_env) toy_v0 = (Inl NotImplementedError, toy_v0)
   \<and> fst (VecEnv_close (Serial E) (v\<lparr>backends := b # bs\<rparr>)) = Inl NotImplementedError"
  by (simp add: toy_construct) (simp add: toy_defs)

text \<open>
  C7. \<open>close\<close> of a shared-memory backend puts the request \<open>close\<close> on the queue, not
  \<open>terminate\<close>. The worker that takes it reaches \<open>getattr(self.envs, "close")\<close> and ends
  with \<open>AttributeError\<close>; the shared memory is not closed. A worker that is sent
  \<open>terminate\<close> ends in \<open>self.envs.close()\<close> with the same error, before
  \<open>self.obs_shm.close()\<close>. \<open>VecEnv.close\<close> over such a backend returns normally and has only
  queued the request \<open>close\<close>.
\<close>

theorem SharedMemory_close_no_teardown:
  "Multiprocessing_close
      \<lparr>request_queue = [], response_queue = rq, process = Running es,
       obs_shape = sh, obs_np = buf, obs_shm_closed = False\<rparr>
     = (Inr (), \<lparr>request_queue = [Request_close], response_queue = rq, process = Running es,
                 obs_shape = sh, obs_np = buf, obs_shm_closed = False\<rparr>)
   \<and> shm_run_worker E assign
        \<lparr>request_queue = [Request_close], response_queue = rq, process = Running es,
         obs_shape = sh, obs_np = buf, obs_shm_closed = False\<rparr>
     = \<lparr>request_queue = [], response_queue = rq, process = Crashed AttributeError,
        obs_shape = sh, obs_np = buf, obs_shm_closed = False\<rparr>
   \<and> shm_run_worker E assign
        \<lparr>request_queue = [Request_terminate], response_queue = rq, process = Running es,
         obs_shape = sh, obs_np = buf, obs_shm_closed = False\<rparr>
     = \<lparr>request_queue = [], response_queue = rq, process = Crashed AttributeError,
        obs_shape = sh, obs_np = buf, obs_shm_closed = False\<rparr>
   \<and> VecEnv_close (SharedMemoryMultiprocessing E assign)
        (v\<lparr>backends :=
             [\<lparr>request_queue = [], response_queue = rq, process = Running es,
               obs_shape = sh, obs_np = buf, obs_shm_closed = False\<rparr>]\<rparr>)
     = (Inr (), v\<lparr>backends :=
             [\<lparr>request_queue = [Request_close], response_queue = rq, process = Running es,
               obs_shape = sh, obs_np = buf, obs_shm_closed = False\<rparr>]\<rparr>)"
  by (simp add: Multiprocessing_close_def queue_put_def shm_run_worker_def MultiEnv_call_def
      MultiEnv_close_def VecEnv_close_def SharedMemoryMultiprocessing_def)

section \<open>The two process backends after a reset\<close>

lemma Multiprocessing_recv_reset:
  "fst (Multiprocessing_recv E
          (snd (Multiprocessing_async_reset_all seed
                  \<lparr>request_queue = [], response_queue = [], process = Running es\<rparr>)))
     = Inr (Result_list (fst (MultiEnv_reset_all E seed es)))"
  by (simp add: Multiprocessing_recv_def Multiprocessing_async_reset_all_def queue_put_def
      run_worker_def MultiEnv_call_def Let_def case_prod_unfold)

lemma SharedMemory_recv_reset:
  "fst (SharedMemory_recv E assign
            (snd (Multiprocessing_async_reset_all seed
                    \<lparr>request_queue = [], response_queue = [], process = Running es,
                     obs_shape = sh, obs_np = buf, obs_shm_closed = False\<rparr>)))
     = Inl (if length es \<noteq> 2 then ValueError else TypeError)"
  using MultiEnv_reset_all_length[of E seed es]
  by (simp add: SharedMemory_recv_def Multiprocessing_async_reset_all_def queue_put_def
      shm_run_worker_def MultiEnv_call_def Let_def case_prod_unfold)

text \<open>
  C4. After \<open>async_reset_all(seed)\<close> on a backend whose worker is running, \<open>recv()\<close> of
  \<open>Multiprocessing\<close> returns the result tuples of \<open>reset_all\<close>, with the reset
  observations; \<open>recv()\<close> of \<open>SharedMemoryMultiprocessing\<close> raises, since it unpacks that
  list as a header: \<open>ValueError\<close> unless there are two environments, \<open>TypeError\<close> with two.
  The last four equations are this run on the two backends as constructed over one
  environment.
\<close>

theorem SharedMemory_recv_after_reset:
  "fst (Multiprocessing_recv E
          (snd (Multiprocessing_async_reset_all seed
                  \<lparr>request_queue = [], response_queue = [], process = Running es\<rparr>)))
     = Inr (Result_list (fst (MultiEnv_reset_all E seed es)))
   \<and> fst (SharedMemory_recv E assign
            (snd (Multiprocessing_async_reset_all seed
                    \<lparr>request_queue = [], response_queue = [], process = Running es,
                     obs_shape = sh, obs_np = buf, obs_shm_closed = False\<rparr>)))
     = Inl (if length es \<noteq> 2 then ValueError else TypeError)
   \<and> Multiprocessing_init (\<lambda>_. (0, 0)) 1
     = Inr \<lparr>request_queue = [], response_queue = [], process = Running [(0 :: int, 0 :: nat)]\<rparr>
   \<and> SharedMemory_init (0 :: int) (\<lambda>_. (0, 0)) 1 [1]
     = Inr \<lparr>request_queue = [], response_queue = [], process = Running [(0 :: int, 0 :: nat)],
            obs_shape = [1, 1], obs_np = [[0]], obs_shm_closed = False\<rparr>
   \<and> fst (Multiprocessing_recv toy_env
          (snd (Multiprocessing_async_reset_all (Some 5)
                  \<lparr>request_queue = [], response_queue = [], process = Running [(0, 0)]\<rparr>)))
     = Inr (Result_list [([(0, [5])], [], [], [])])
   \<and> fst (SharedMemory_recv toy_env assign'
            (snd (Multiprocessing_async_reset_all (Some 5)
                    \<lparr>request_queue = [], response_queue = [], process = Running [(0, 0)],
                     obs_shape = [1, 1], obs_np = [[0]], obs_shm_closed = False\<rparr>)))
     = Inl ValueError"
proof -
  have 3: "Multiprocessing_init (\<lambda>_. (0, 0)) 1
     = Inr \<lparr>request_queue = [], response_queue = [], process = Running [(0 :: int, 0 :: nat)]\<rparr>"
    by (simp add: Multiprocessing_init_def MultiEnv_init_def)
  have 4: "SharedMemory_init (0 :: int) (\<lambda>_. (0, 0)) 1 [1]
     = Inr \<lparr>request_queue = [], response_queue = [], process = Running [(0 :: int, 0 :: nat)],
            obs_shape = [1, 1], obs_np = [[0]], obs_shm_closed = False\<rparr>"
    by (simp add: SharedMemory_init_def MultiEnv_init_def)
  have 5: "fst (Multiprocessing_recv toy_env
          (snd (Multiprocessing_async_reset_all (Some 5)
                  \<lparr>request_queue = [], response_queue = [], process = Running [(0, 0)]\<rparr>)))
     = Inr (Result_list [([(0, [5])], [], [], [])])"
    unfolding Multiprocessing_recv_reset by (simp add: toy_env_def)
  have 6: "fst (SharedMemory_recv toy_env assign'
            (snd (Multiprocessing_async_reset_all (Some 5)
                    \<lparr>request_queue = [], response_queue = [], process = Running [(0, 0)],
                     obs_shape = [1, 1], obs_np = [[0]], obs_shm_closed = False\<rparr>)))
     = Inl ValueError"
    unfolding SharedMemory_recv_reset by simp
  from Multiprocessing_recv_reset[of E seed es] SharedMemory_recv_reset[of E assign seed es sh buf]
    3 4 5 6 show ?thesis by blast
qed

end
